theory Spec2Isabelle
  imports Main "HOL-Library.Word"
begin

section \<open>Hand gesture controller: finger counter, command channel, frame cycle\<close>

text \<open>
  A shallow embedding of \<^verbatim>\<open>hand_arduino_controller.py\<close>: the finger counter
  \<^verbatim>\<open>AHMDHandDetector.akCountFingers\<close>, the serial command channel
  \<^verbatim>\<open>AKArduinoController\<close> and the per-frame cycle
  \<^verbatim>\<open>AHMDGestureController.ahmdProcessFrame\<close>.

  Python exceptions are values: an operation yields \<open>Returned v\<close> or \<open>Raised e\<close>,
  next to the object state it leaves behind and the calls it made on the outside
  world. The libraries (pyserial, MediaPipe, OpenCV) are not part of the program; what
  they answer is a parameter of the operation that calls them.
\<close>

subsection \<open>Exceptions and results\<close>

datatype exn = IndexError | SerialException string | OtherException string

datatype 'a result = Returned 'a | Raised exn

text \<open>What a library call answers: a value, or an exception.\<close>

datatype 'a outcome = Returns 'a | Raises exn

subsection \<open>Landmarks and the finger counter\<close>

text \<open>
  A landmark is the tuple \<^verbatim>\<open>(id, cx, cy)\<close> built in \<^verbatim>\<open>akDetectHands\<close>;
  \<^verbatim>\<open>lm[1]\<close> is the horizontal and \<^verbatim>\<open>lm[2]\<close> the vertical pixel coordinate.
\<close>

type_synonym landmark = "int \<times> int \<times> int"

definition lm_x :: "landmark \<Rightarrow> int" where
  "lm_x lm = fst (snd lm)"

definition lm_y :: "landmark \<Rightarrow> int" where
  "lm_y lm = snd (snd lm)"

text \<open>
  Python list indexing \<^verbatim>\<open>xs[i]\<close>: a negative index counts from the end, an index out
  of range raises \<^verbatim>\<open>IndexError\<close>.
\<close>

definition py_get :: "'a list \<Rightarrow> int \<Rightarrow> 'a result" where
  "py_get xs i =
     (let n = int (length xs); j = (if i < 0 then n + i else i)
      in if 0 \<le> j \<and> j < n then Returned (xs ! nat j) else Raised IndexError)"

definition and_then :: "'a result \<Rightarrow> ('a \<Rightarrow> 'b result) \<Rightarrow> 'b result" where
  "and_then r f = (case r of Raised e \<Rightarrow> Raised e | Returned v \<Rightarrow> f v)"

definition akFingerTipIds :: "int list" where
  "akFingerTipIds = [4, 8, 12, 16, 20]"

text \<open>
  Lines 116 to 119: the value appended to \<^verbatim>\<open>fingers\<close> for the thumb,
  \<^verbatim>\<open>landmarks[tip[0]][1] > landmarks[tip[0] - 1][1]\<close>.
\<close>

definition thumb_flag :: "landmark list \<Rightarrow> int result" where
  "thumb_flag landmarks =
     and_then (py_get akFingerTipIds 0) (\<lambda>t.
     and_then (py_get landmarks t) (\<lambda>tip.
     and_then (py_get akFingerTipIds 0) (\<lambda>t'.
     and_then (py_get landmarks (t' - 1)) (\<lambda>joint.
       Returned (if lm_x tip > lm_x joint then 1 else 0)))))"

text \<open>
  Lines 122 to 125: the value appended in the loop body at index \<open>i\<close>,
  \<^verbatim>\<open>landmarks[tip[i]][2] < landmarks[tip[i] - 2][2]\<close>.
\<close>

definition finger_flag :: "landmark list \<Rightarrow> int \<Rightarrow> int result" where
  "finger_flag landmarks i =
     and_then (py_get akFingerTipIds i) (\<lambda>t.
     and_then (py_get landmarks t) (\<lambda>tip.
     and_then (py_get akFingerTipIds i) (\<lambda>t'.
     and_then (py_get landmarks (t' - 2)) (\<lambda>joint.
       Returned (if lm_y tip < lm_y joint then 1 else 0)))))"

text \<open>The loop \<^verbatim>\<open>for i in range(1, 5)\<close>, over the indices still to visit.\<close>

fun finger_loop :: "landmark list \<Rightarrow> int list \<Rightarrow> int list \<Rightarrow> int list result" where
  "finger_loop landmarks [] fingers = Returned fingers"
| "finger_loop landmarks (i # rest) fingers =
     and_then (finger_flag landmarks i) (\<lambda>f. finger_loop landmarks rest (fingers @ [f]))"

text \<open>The list \<^verbatim>\<open>fingers\<close> when the loop has ended.\<close>

definition akFingers :: "landmark list \<Rightarrow> int list result" where
  "akFingers landmarks =
     and_then (thumb_flag landmarks) (\<lambda>f. finger_loop landmarks [1, 2, 3, 4] [f])"

definition akCountFingers :: "landmark list \<Rightarrow> int result" where
  "akCountFingers landmarks =
     (if length landmarks \<noteq> 21 then Returned 0
      else and_then (akFingers landmarks) (\<lambda>fingers. Returned (int (count_list fingers 1))))"

subsection \<open>The serial command channel\<close>

text \<open>
  The outside world is seen through the calls the program makes on it, in order:
  opening the port, sleeping, logging, writing to and closing a port. The entry of
  \<^verbatim>\<open>akSendData\<close> is recorded too, so that a send that was attempted and gave up
  differs from a send that was never attempted.
\<close>

type_synonym byte = "8 word"

type_synonym handle = nat

datatype event =
    Serial_open string int int
  | Sleep nat
  | Log_info string
  | Log_error string
  | Serial_write handle "byte list"
  | Serial_close handle
  | Call_akSendData int

record AKArduinoController =
  port :: string
  baud_rate :: int
  timeout :: int
  arduino :: "handle option"
  isConnected :: bool

text \<open>\<^verbatim>\<open>__init__\<close>: no port object yet, not connected.\<close>

definition AKArduinoController_init :: "string \<Rightarrow> int \<Rightarrow> int \<Rightarrow> AKArduinoController" where
  "AKArduinoController_init p b t =
     \<lparr>port = p, baud_rate = b, timeout = t, arduino = None, isConnected = False\<rparr>"

text \<open>
  \<^verbatim>\<open>ahmdConnect\<close>. The argument \<open>opened\<close> is what \<^verbatim>\<open>serial.Serial(...)\<close> answers.
  Only \<^verbatim>\<open>SerialException\<close> is handled; any other exception leaves the method.
\<close>

definition ahmdConnect ::
  "handle outcome \<Rightarrow> AKArduinoController \<Rightarrow> bool result \<times> AKArduinoController \<times> event list" where
  "ahmdConnect opened c =
     (case opened of
        Returns h \<Rightarrow>
          (Returned True, c\<lparr>arduino := Some h, isConnected := True\<rparr>,
           [Serial_open (port c) (baud_rate c) (timeout c), Sleep 2,
            Log_info (''AK Arduino connected on '' @ port c)])
      | Raises x \<Rightarrow>
          (case x of
             SerialException e \<Rightarrow>
               (Returned False, c\<lparr>isConnected := False\<rparr>,
                [Serial_open (port c) (baud_rate c) (timeout c),
                 Log_error (''AHMD Arduino connection failed: '' @ e)])
           | _ \<Rightarrow> (Raised x, c, [Serial_open (port c) (baud_rate c) (timeout c)])))"

text \<open>
  Python's \<^verbatim>\<open>str\<close> on an integer (decimal digits, a minus sign when negative) and
  \<^verbatim>\<open>bytes(s, 'utf-8')\<close> on such a string, whose characters are all ASCII: one byte
  each, the character's code.
\<close>

definition digit_char :: "nat \<Rightarrow> char" where
  "digit_char d = ''0123456789'' ! d"

function str_nat :: "nat \<Rightarrow> string" where
  "str_nat n =
     (if n < 10 then [digit_char n] else str_nat (n div 10) @ [digit_char (n mod 10)])"
  by pat_completeness auto
termination
  by (relation "measure id") auto

declare str_nat.simps [simp del]

text \<open>Reading a decimal string back: the value of a digit, and of a string of digits.\<close>

definition digit_value :: "char \<Rightarrow> nat" where
  "digit_value ch = of_char ch - 48"

definition decimal_value :: "string \<Rightarrow> nat" where
  "decimal_value s = foldl (\<lambda>acc ch. 10 * acc + digit_value ch) 0 s"

definition py_str :: "int \<Rightarrow> string" where
  "py_str i = (if i < 0 then CHR ''-'' # str_nat (nat (- i)) else str_nat (nat i))"

definition bytes_utf8 :: "string \<Rightarrow> byte list" where
  "bytes_utf8 s = map of_char s"

text \<open>
  \<^verbatim>\<open>akSendData\<close>. The argument \<open>written\<close> is what \<^verbatim>\<open>self.arduino.write(...)\<close>
  answers when it is called. The annotation of \<^verbatim>\<open>data\<close> says \<^verbatim>\<open>str\<close>, the one
  caller passes the integer finger count, and the body converts with \<^verbatim>\<open>str(data)\<close>.
\<close>

definition akSendData ::
  "int outcome \<Rightarrow> int \<Rightarrow> AKArduinoController \<Rightarrow> bool result \<times> AKArduinoController \<times> event list" where
  "akSendData written data c =
     (if \<not> isConnected c \<or> arduino c = None then (Returned False, c, [Call_akSendData data])
      else
        (let h = the (arduino c); payload = bytes_utf8 (py_str data) in
         case written of
           Returns n \<Rightarrow> (Returned True, c, [Call_akSendData data, Serial_write h payload])
         | Raises x \<Rightarrow>
             (case x of
                SerialException e \<Rightarrow>
                  (Returned False, c,
                   [Call_akSendData data, Serial_write h payload,
                    Log_error (''AK data transmission failed: '' @ e)])
              | _ \<Rightarrow> (Raised x, c, [Call_akSendData data, Serial_write h payload]))))"

text \<open>
  \<^verbatim>\<open>ahmdDisconnect\<close>. The argument \<open>closed\<close> is what \<^verbatim>\<open>self.arduino.close()\<close>
  answers when it is called. The method has no handler around the call: an exception
  leaves the method before the flag is cleared and before the log line.
\<close>

definition ahmdDisconnect ::
  "unit outcome \<Rightarrow> AKArduinoController \<Rightarrow> unit result \<times> AKArduinoController \<times> event list" where
  "ahmdDisconnect closed c =
     (if arduino c \<noteq> None \<and> isConnected c
      then (case closed of
              Returns u \<Rightarrow>
                (Returned (), c\<lparr>isConnected := False\<rparr>,
                 [Serial_close (the (arduino c)), Log_info ''AHMD Arduino disconnected''])
            | Raises x \<Rightarrow> (Raised x, c, [Serial_close (the (arduino c))]))
      else (Returned (), c, []))"

text \<open>
  What \<^verbatim>\<open>__init__\<close> establishes and the three methods keep: the flag is set
  only while a port object is held.
\<close>

definition channel_inv :: "AKArduinoController \<Rightarrow> bool" where
  "channel_inv c = (isConnected c \<longrightarrow> arduino c \<noteq> None)"

text \<open>
  A channel built with the default configuration, and the same channel after a successful
  connect that was handed port object 7.
\<close>

definition controller0 :: AKArduinoController where
  "controller0 = AKArduinoController_init ''COM3'' 9600 2"

definition controller1 :: AKArduinoController where
  "controller1 = controller0\<lparr>arduino := Some 7, isConnected := True\<rparr>"

subsection \<open>One frame of the control loop\<close>

text \<open>
  \<^verbatim>\<open>ahmdProcessFrame\<close>. \<open>flip\<close> is \<^verbatim>\<open>cv2.flip(frame, 1)\<close>; \<open>detect\<close> is
  \<^verbatim>\<open>akDetectHands\<close>, which hands back the annotated image and one landmark list for
  each detected hand. The state is the channel object \<^verbatim>\<open>self.arduino\<close>.
\<close>

definition ahmdProcessFrame ::
  "('frame \<Rightarrow> 'frame) \<Rightarrow> ('frame \<Rightarrow> 'frame \<times> landmark list list) \<Rightarrow> int outcome \<Rightarrow>
   'frame \<Rightarrow> AKArduinoController \<Rightarrow> ('frame \<times> int) result \<times> AKArduinoController \<times> event list" where
  "ahmdProcessFrame flip detect written frame c =
     (let (frame', all_landmarks) = detect (flip frame) in
      case all_landmarks of
        [] \<Rightarrow> (Returned (frame', 0), c, [])
      | hand # others \<Rightarrow>
          (case akCountFingers hand of
             Raised e \<Rightarrow> (Raised e, c, [])
           | Returned finger_count \<Rightarrow>
               if isConnected c then
                 (case akSendData written finger_count c of
                    (Raised e, c', evs) \<Rightarrow> (Raised e, c', evs)
                  | (Returned sent, c', evs) \<Rightarrow> (Returned (frame', finger_count), c', evs))
               else (Returned (frame', finger_count), c, [])))"

text \<open>The arguments of the send calls among the calls made.\<close>

fun send_calls :: "event list \<Rightarrow> int list" where
  "send_calls [] = []"
| "send_calls (Call_akSendData d # evs) = d # send_calls evs"
| "send_calls (ev # evs) = send_calls evs"

text \<open>The payloads written to the port among the calls made.\<close>

fun writes :: "event list \<Rightarrow> byte list list" where
  "writes [] = []"
| "writes (Serial_write h bs # evs) = bs # writes evs"
| "writes (ev # evs) = writes evs"

subsection \<open>The thumb rule in the words of the specification\<close>

text \<open>
  The specification words the thumb rule by distance from the centre of the hand. With the
  centre read as the mean horizontal coordinate of the landmarks, and both sides scaled
  by the number of landmarks to stay in the integers: the tip is further from the centre
  than the adjacent joint.
\<close>

definition spec_thumb_extended :: "landmark list \<Rightarrow> bool" where
  "spec_thumb_extended lms =
     (let n = int (length lms); s = sum_list (map lm_x lms)
      in \<bar>n * lm_x (lms ! 4) - s\<bar> > \<bar>n * lm_x (lms ! 3) - s\<bar>)"

text \<open>A hand whose thumb points to the left of the image, every other landmark at one point.\<close>

definition hand_thumb_left :: "landmark list" where
  "hand_thumb_left =
     [(0, 50, 50), (1, 50, 50), (2, 50, 50), (3, 20, 50), (4, 10, 50), (5, 50, 50),
      (6, 50, 50), (7, 50, 50), (8, 50, 50), (9, 50, 50), (10, 50, 50), (11, 50, 50),
      (12, 50, 50), (13, 50, 50), (14, 50, 50), (15, 50, 50), (16, 50, 50), (17, 50, 50),
      (18, 50, 50), (19, 50, 50), (20, 50, 50)]"

text \<open>The image of a hand under horizontal mirroring in a frame of the given width.\<close>

definition mirror_hand :: "int \<Rightarrow> landmark list \<Rightarrow> landmark list" where
  "mirror_hand w lms = map (\<lambda>(i, x, y). (i, w - x, y)) lms"

text \<open>
  A hand with the thumb out to the right and the index and middle fingers raised: three
  extended fingers.
\<close>

definition hand_three :: "landmark list" where
  "hand_three =
     [(0, 50, 90), (1, 60, 80), (2, 70, 70), (3, 80, 60), (4, 90, 50), (5, 55, 50),
      (6, 55, 40), (7, 55, 30), (8, 55, 20), (9, 50, 50), (10, 50, 40), (11, 50, 30),
      (12, 50, 20), (13, 45, 50), (14, 45, 45), (15, 45, 50), (16, 45, 55), (17, 40, 50),
      (18, 40, 45), (19, 40, 50), (20, 40, 55)]"

text \<open>
  The same three-finger hand with every coordinate the counter does not read moved
  elsewhere.
\<close>

definition hand_three_moved :: "landmark list" where
  "hand_three_moved =
     [(0, 7, 1), (1, 8, 2), (2, 9, 3), (3, 80, 4), (4, 90, 5), (5, 1, 6),
      (6, 2, 40), (7, 3, 7), (8, 4, 20), (9, 5, 8), (10, 6, 40), (11, 7, 9),
      (12, 8, 20), (13, 9, 10), (14, 10, 45), (15, 11, 11), (16, 12, 55), (17, 13, 12),
      (18, 14, 45), (19, 15, 13), (20, 16, 55)]"

subsection \<open>Helper facts on the finger counter\<close>

lemma thumb_flag_21:
  assumes "length lms = 21"
  shows "thumb_flag lms = Returned (of_bool (lm_x (lms ! 4) > lm_x (lms ! 3)))"
  using assms
  by (simp add: thumb_flag_def akFingerTipIds_def py_get_def and_then_def)

lemma finger_flag_21:
  assumes "length lms = 21"
  shows "finger_flag lms 1 = Returned (of_bool (lm_y (lms ! 8) < lm_y (lms ! 6)))"
    and "finger_flag lms 2 = Returned (of_bool (lm_y (lms ! 12) < lm_y (lms ! 10)))"
    and "finger_flag lms 3 = Returned (of_bool (lm_y (lms ! 16) < lm_y (lms ! 14)))"
    and "finger_flag lms 4 = Returned (of_bool (lm_y (lms ! 20) < lm_y (lms ! 18)))"
  using assms
  by (simp_all add: finger_flag_def akFingerTipIds_def py_get_def and_then_def)

lemma akFingers_21:
  assumes "length lms = 21"
  shows "akFingers lms = Returned
           [of_bool (lm_x (lms ! 4) > lm_x (lms ! 3)),
            of_bool (lm_y (lms ! 8) < lm_y (lms ! 6)),
            of_bool (lm_y (lms ! 12) < lm_y (lms ! 10)),
            of_bool (lm_y (lms ! 16) < lm_y (lms ! 14)),
            of_bool (lm_y (lms ! 20) < lm_y (lms ! 18))]"
  by (simp add: akFingers_def thumb_flag_21 [OF assms] finger_flag_21 [OF assms] and_then_def)

lemma count_list_of_bool:
  "int (count_list (of_bool b # fs) 1) = of_bool b + int (count_list fs 1)"
  by (cases b) simp_all

lemma akCountFingers_21:
  assumes "length lms = 21"
  shows "akCountFingers lms = Returned
           (of_bool (lm_x (lms ! 4) > lm_x (lms ! 3))
            + of_bool (lm_y (lms ! 8) < lm_y (lms ! 6))
            + of_bool (lm_y (lms ! 12) < lm_y (lms ! 10))
            + of_bool (lm_y (lms ! 16) < lm_y (lms ! 14))
            + of_bool (lm_y (lms ! 20) < lm_y (lms ! 18)))"
  using assms
  by (simp add: akCountFingers_def akFingers_21 and_then_def count_list_of_bool
      del: count_list.simps)

lemma of_bool_range: "0 \<le> (of_bool b :: int) \<and> (of_bool b :: int) \<le> 1"
  by simp

lemma akCountFingers_range:
  assumes "length lms = 21"
  shows "\<exists>n. akCountFingers lms = Returned n \<and> 0 \<le> n \<and> n \<le> 5"
proof -
  let ?n = "of_bool (lm_x (lms ! 4) > lm_x (lms ! 3))
            + of_bool (lm_y (lms ! 8) < lm_y (lms ! 6))
            + of_bool (lm_y (lms ! 12) < lm_y (lms ! 10))
            + of_bool (lm_y (lms ! 16) < lm_y (lms ! 14))
            + (of_bool (lm_y (lms ! 20) < lm_y (lms ! 18)) :: int)"
  have "akCountFingers lms = Returned ?n"
    by (rule akCountFingers_21 [OF assms])
  moreover have "0 \<le> ?n"
    by (intro add_nonneg_nonneg) simp_all
  moreover have "?n \<le> 1 + 1 + 1 + 1 + 1"
    by (intro add_mono) simp_all
  ultimately show ?thesis by simp
qed

lemma akCountFingers_not_21:
  "length lms \<noteq> 21 \<Longrightarrow> akCountFingers lms = Returned 0"
  by (simp add: akCountFingers_def)

lemma akCountFingers_returns: "\<exists>n. akCountFingers lms = Returned n \<and> 0 \<le> n \<and> n \<le> 5"
proof (cases "length lms = 21")
  case True
  then show ?thesis by (rule akCountFingers_range)
next
  case False
  then show ?thesis by (simp add: akCountFingers_not_21)
qed

lemma length_hand_thumb_left: "length hand_thumb_left = 21"
  by (simp add: hand_thumb_left_def)

lemma length_hand_three: "length hand_three = 21"
  by (simp add: hand_three_def)

lemma akCountFingers_hand_three: "akCountFingers hand_three = Returned 3"
  by (simp add: akCountFingers_21 [OF length_hand_three])
     (simp add: hand_three_def lm_x_def lm_y_def)

lemma akCountFingers_hand_thumb_left: "akCountFingers hand_thumb_left = Returned 0"
  by (simp add: akCountFingers_21 [OF length_hand_thumb_left])
     (simp add: hand_thumb_left_def lm_x_def lm_y_def)

lemma length_hand_three_moved: "length hand_three_moved = 21"
  by (simp add: hand_three_moved_def)

subsection \<open>Helper facts on the command channel\<close>

lemma digit_value_digit_char: "d < 10 \<Longrightarrow> digit_value (digit_char d) = d"
proof -
  assume "d < 10"
  then have "d = 0 \<or> d = 1 \<or> d = 2 \<or> d = 3 \<or> d = 4 \<or> d = 5 \<or> d = 6 \<or> d = 7 \<or> d = 8 \<or> d = 9"
    by arith
  then show ?thesis by (auto simp: digit_value_def digit_char_def)
qed

lemma decimal_value_str_nat: "decimal_value (str_nat n) = n"
proof (induction n rule: str_nat.induct)
  case (1 n)
  show ?case
  proof (cases "n < 10")
    case True
    then show ?thesis
      by (subst str_nat.simps) (simp add: decimal_value_def digit_value_digit_char)
  next
    case False
    with 1 have ih: "decimal_value (str_nat (n div 10)) = n div 10" by simp
    have "decimal_value (str_nat n) = 10 * decimal_value (str_nat (n div 10)) + digit_value (digit_char (n mod 10))"
      using False by (subst str_nat.simps) (simp add: decimal_value_def)
    then show ?thesis
      by (simp add: ih digit_value_digit_char)
  qed
qed

lemma decimal_value_py_str: "0 \<le> i \<Longrightarrow> int (decimal_value (py_str i)) = i"
  by (simp add: py_str_def decimal_value_str_nat)

lemma bytes_of_count:
  assumes "0 \<le> n" and "n \<le> 5"
  shows "bytes_utf8 (py_str n) = [word_of_int (48 + n)]"
proof -
  from assms have "n = 0 \<or> n = 1 \<or> n = 2 \<or> n = 3 \<or> n = 4 \<or> n = 5" by arith
  then show ?thesis
    by (auto simp: py_str_def bytes_utf8_def digit_char_def str_nat.simps)
qed

lemma akSendData_not_connected:
  "\<not> isConnected c \<or> arduino c = None \<Longrightarrow>
   akSendData written data c = (Returned False, c, [Call_akSendData data])"
  by (auto simp: akSendData_def)

lemma akSendData_events:
  assumes "isConnected c" and "arduino c = Some h"
  shows "\<exists>r log. akSendData written data c =
           (r, c, [Call_akSendData data, Serial_write h (bytes_utf8 (py_str data))] @ log)
         \<and> send_calls log = [] \<and> writes log = []
         \<and> (r = Returned True \<or> r = Returned False \<or> (\<exists>e. r = Raised e \<and> written = Raises e))"
  using assms
  by (auto simp: akSendData_def Let_def split: outcome.splits exn.splits)

lemma akSendData_send_calls:
  "send_calls (snd (snd (akSendData written data c))) = [data]"
  by (auto simp: akSendData_def Let_def split: outcome.splits exn.splits)

lemma akSendData_state: "fst (snd (akSendData written data c)) = c"
  by (auto simp: akSendData_def Let_def split: outcome.splits exn.splits)

lemma channel_inv_init: "channel_inv (AKArduinoController_init p b t)"
  by (simp add: channel_inv_def AKArduinoController_init_def)

lemma channel_inv_ahmdConnect: "channel_inv c \<Longrightarrow> channel_inv (fst (snd (ahmdConnect opened c)))"
  by (auto simp: channel_inv_def ahmdConnect_def split: outcome.splits exn.splits)

lemma channel_inv_akSendData: "channel_inv c \<Longrightarrow> channel_inv (fst (snd (akSendData written data c)))"
  by (simp add: akSendData_state)

lemma channel_inv_ahmdDisconnect:
  "channel_inv c \<Longrightarrow> channel_inv (fst (snd (ahmdDisconnect closed c)))"
  by (auto simp: channel_inv_def ahmdDisconnect_def split: outcome.splits)

lemma ahmdConnect_controller0:
  "ahmdConnect (Returns 7) controller0
     = (Returned True, controller1,
        [Serial_open ''COM3'' 9600 2, Sleep 2, Log_info ''AK Arduino connected on COM3''])"
  by (simp add: ahmdConnect_def controller0_def controller1_def AKArduinoController_init_def)

lemma arduino_controller1: "arduino controller1 = Some 7"
  by (simp add: controller1_def)

lemma isConnected_controller1: "isConnected controller1"
  by (simp add: controller1_def)

lemma channel_inv_controller1: "channel_inv controller1"
  by (simp add: channel_inv_def controller1_def)

subsection \<open>The finger counter: claims\<close>

text \<open>
  Claim C2, as stated: the thumb counts as extended exactly when its tip (landmark 4) is
  horizontally further from the centre of the hand than the adjacent joint (landmark 3).
  The code compares the two horizontal coordinates in one fixed direction and never
  looks at a centre. On the hand \<open>hand_thumb_left\<close> the tip lies further from the mean
  horizontal coordinate, from the wrist (landmark 0) and from the base of the middle
  finger (landmark 9) than the joint does, and the thumb is not counted. On its mirror
  image, where every such distance is the same, the thumb is counted.
\<close>

theorem C2_thumb_center_counterexample:
  "length hand_thumb_left = 21
   \<and> \<not> (thumb_flag hand_thumb_left = Returned 1 \<longleftrightarrow> spec_thumb_extended hand_thumb_left)
   \<and> spec_thumb_extended hand_thumb_left
   \<and> thumb_flag hand_thumb_left = Returned 0
   \<and> akCountFingers hand_thumb_left = Returned 0
   \<and> \<bar>lm_x (hand_thumb_left ! 4) - lm_x (hand_thumb_left ! 0)\<bar>
       > \<bar>lm_x (hand_thumb_left ! 3) - lm_x (hand_thumb_left ! 0)\<bar>
   \<and> \<bar>lm_x (hand_thumb_left ! 4) - lm_x (hand_thumb_left ! 9)\<bar>
       > \<bar>lm_x (hand_thumb_left ! 3) - lm_x (hand_thumb_left ! 9)\<bar>
   \<and> spec_thumb_extended (mirror_hand 100 hand_thumb_left)
   \<and> thumb_flag (mirror_hand 100 hand_thumb_left) = Returned 1"
proof -
  have m: "spec_thumb_extended (mirror_hand 100 hand_thumb_left)"
    by (simp add: spec_thumb_extended_def mirror_hand_def hand_thumb_left_def lm_x_def)
  have lm: "length (mirror_hand 100 hand_thumb_left) = 21"
    by (simp add: mirror_hand_def length_hand_thumb_left)
  have tm: "thumb_flag (mirror_hand 100 hand_thumb_left) = Returned 1"
    by (simp add: thumb_flag_21 [OF lm])
       (simp add: mirror_hand_def hand_thumb_left_def lm_x_def)
  have s: "spec_thumb_extended hand_thumb_left"
    by (simp add: spec_thumb_extended_def hand_thumb_left_def lm_x_def)
  have t: "thumb_flag hand_thumb_left = Returned 0"
    by (simp add: thumb_flag_21 [OF length_hand_thumb_left])
       (simp add: hand_thumb_left_def lm_x_def)
  have d: "\<bar>lm_x (hand_thumb_left ! 4) - lm_x (hand_thumb_left ! 0)\<bar>
       > \<bar>lm_x (hand_thumb_left ! 3) - lm_x (hand_thumb_left ! 0)\<bar>"
    "\<bar>lm_x (hand_thumb_left ! 4) - lm_x (hand_thumb_left ! 9)\<bar>
       > \<bar>lm_x (hand_thumb_left ! 3) - lm_x (hand_thumb_left ! 9)\<bar>"
    by (simp_all add: hand_thumb_left_def lm_x_def)
  show ?thesis
    using s t d m tm length_hand_thumb_left akCountFingers_hand_thumb_left by simp
qed

text \<open>
  Claim C2, amended: in the finger count of a 21-landmark hand, the thumb is classified
  extended if and only if the horizontal coordinate of the thumb tip (landmark 4) is
  strictly greater than the horizontal coordinate of its adjacent joint (landmark 3).
  The thumb's entry is the first of the five entries of \<^verbatim>\<open>fingers\<close>.
\<close>

theorem C2_thumb_rule:
  assumes "length lms = 21"
  shows "thumb_flag lms = Returned (if lm_x (lms ! 4) > lm_x (lms ! 3) then 1 else 0)
     \<and> (\<exists>fs. akFingers lms = Returned fs \<and> length fs = 5
           \<and> (fs ! 0 = 1 \<longleftrightarrow> lm_x (lms ! 4) > lm_x (lms ! 3))
           \<and> (fs ! 0 = 0 \<longleftrightarrow> \<not> lm_x (lms ! 4) > lm_x (lms ! 3)))"
  by (simp add: thumb_flag_21 [OF assms] akFingers_21 [OF assms])

text \<open>Claim C2, witness: the thumb of the three-finger hand is classified extended.\<close>

theorem C2_thumb_rule_witness:
  "length hand_three = 21 \<and> thumb_flag hand_three = Returned 1
   \<and> lm_x (hand_three ! 4) > lm_x (hand_three ! 3)"
proof -
  have x: "lm_x (hand_three ! 4) > lm_x (hand_three ! 3)"
    by (simp add: hand_three_def lm_x_def)
  show ?thesis
    using C2_thumb_rule [OF length_hand_three] x length_hand_three by simp
qed

text \<open>
  Claim C3: for every 21-landmark hand, each of the fingers with tips 8, 12, 16 and 20 is
  classified extended if and only if the vertical coordinate of its tip is strictly less
  than the vertical coordinate of the landmark whose id is the tip id minus 2, and the
  result is the number of fingers, thumb and these four, classified extended.
\<close>

theorem C3_finger_rule:
  assumes "length lms = 21"
  shows "(\<exists>fs. akFingers lms = Returned fs \<and> length fs = 5
           \<and> (fs ! 1 = 1 \<longleftrightarrow> lm_y (lms ! 8) < lm_y (lms ! (8 - 2)))
           \<and> (fs ! 2 = 1 \<longleftrightarrow> lm_y (lms ! 12) < lm_y (lms ! (12 - 2)))
           \<and> (fs ! 3 = 1 \<longleftrightarrow> lm_y (lms ! 16) < lm_y (lms ! (16 - 2)))
           \<and> (fs ! 4 = 1 \<longleftrightarrow> lm_y (lms ! 20) < lm_y (lms ! (20 - 2)))
           \<and> akCountFingers lms = Returned (int (length (filter (\<lambda>f. f = 1) fs))))
     \<and> akCountFingers lms = Returned
               ((if lm_x (lms ! 4) > lm_x (lms ! 3) then 1 else 0)
                + (if lm_y (lms ! 8) < lm_y (lms ! 6) then 1 else 0)
                + (if lm_y (lms ! 12) < lm_y (lms ! 10) then 1 else 0)
                + (if lm_y (lms ! 16) < lm_y (lms ! 14) then 1 else 0)
                + (if lm_y (lms ! 20) < lm_y (lms ! 18) then 1 else 0))"
  by (simp add: akFingers_21 [OF assms] akCountFingers_21 [OF assms])

text \<open>
  Claim C3, witness: on the three-finger hand the index finger is classified extended,
  the little finger is not, and the count is 3.
\<close>

theorem C3_finger_rule_witness:
  "length hand_three = 21 \<and> akCountFingers hand_three = Returned 3
   \<and> lm_y (hand_three ! 8) < lm_y (hand_three ! 6)
   \<and> \<not> lm_y (hand_three ! 20) < lm_y (hand_three ! 18)"
proof -
  have y: "lm_y (hand_three ! 8) < lm_y (hand_three ! 6)"
    "lm_y (hand_three ! 12) < lm_y (hand_three ! 10)"
    "\<not> lm_y (hand_three ! 16) < lm_y (hand_three ! 14)"
    "\<not> lm_y (hand_three ! 20) < lm_y (hand_three ! 18)"
    "lm_x (hand_three ! 4) > lm_x (hand_three ! 3)"
    by (simp_all add: hand_three_def lm_x_def lm_y_def)
  show ?thesis
    using C3_finger_rule [OF length_hand_three] y length_hand_three by simp
qed

text \<open>
  Claim C4: for every hand with exactly 21 landmarks the finger count is returned, is an
  integer between 0 and 5, and equal inputs give equal outputs.
\<close>

theorem C4_count_range:
  assumes "length lms = 21"
  shows "(\<exists>n. akCountFingers lms = Returned n \<and> 0 \<le> n \<and> n \<le> 5)
     \<and> (\<forall>lms'. lms' = lms \<longrightarrow> akCountFingers lms' = akCountFingers lms)"
  using akCountFingers_range [OF assms] by simp

text \<open>Claim C4, witness: the three-finger hand.\<close>

theorem C4_count_range_witness:
  "length hand_three = 21 \<and> (\<exists>n. akCountFingers hand_three = Returned n \<and> 0 \<le> n \<and> n \<le> 5)"
  using C4_count_range [OF length_hand_three] length_hand_three by simp

text \<open>
  Claim C5: for every landmark list whose length is not 21, shorter or longer, the finger
  count returns 0; it does not raise.
\<close>

theorem C5_wrong_length:
  assumes "length lms \<noteq> 21"
  shows "akCountFingers lms = Returned 0"
  using assms by (simp add: akCountFingers_def)

text \<open>Claim C5, witness: the empty list and a list of 22 landmarks.\<close>

theorem C5_wrong_length_witness:
  "length ([] :: landmark list) \<noteq> 21 \<and> akCountFingers [] = Returned 0
   \<and> length (replicate 22 ((0, 0, 0) :: landmark)) \<noteq> 21
   \<and> akCountFingers (replicate 22 (0, 0, 0)) = Returned 0"
  using C5_wrong_length [of "[]"] C5_wrong_length [of "replicate 22 (0, 0, 0)"] by simp

text \<open>
  Claim C10: the finger count of a 21-landmark hand depends only on the horizontal
  coordinates of landmarks 3 and 4 and the vertical coordinates of landmarks 6, 8, 10,
  12, 14, 16, 18 and 20: two 21-landmark hands that agree on these ten values have the
  same count.
\<close>

theorem C10_count_depends_on_ten_coordinates:
  assumes "length a = 21" and "length b = 21"
    and "lm_x (a ! 3) = lm_x (b ! 3)" and "lm_x (a ! 4) = lm_x (b ! 4)"
    and "lm_y (a ! 6) = lm_y (b ! 6)" and "lm_y (a ! 8) = lm_y (b ! 8)"
    and "lm_y (a ! 10) = lm_y (b ! 10)" and "lm_y (a ! 12) = lm_y (b ! 12)"
    and "lm_y (a ! 14) = lm_y (b ! 14)" and "lm_y (a ! 16) = lm_y (b ! 16)"
    and "lm_y (a ! 18) = lm_y (b ! 18)" and "lm_y (a ! 20) = lm_y (b ! 20)"
  shows "akCountFingers a = akCountFingers b"
  using assms(3-) by (simp add: akCountFingers_21 [OF assms(1)] akCountFingers_21 [OF assms(2)])

text \<open>
  Claim C10, witness: the three-finger hand and the hand that differs from it in every
  coordinate the counter does not read.
\<close>

theorem C10_count_depends_on_ten_coordinates_witness:
  "length hand_three = 21 \<and> length hand_three_moved = 21
   \<and> hand_three \<noteq> hand_three_moved
   \<and> akCountFingers hand_three = akCountFingers hand_three_moved"
proof -
  have ne: "hand_three \<noteq> hand_three_moved"
    by (simp add: hand_three_def hand_three_moved_def)
  have eq: "akCountFingers hand_three = akCountFingers hand_three_moved"
    by (rule C10_count_depends_on_ten_coordinates
          [OF length_hand_three length_hand_three_moved])
       (simp_all add: hand_three_def hand_three_moved_def lm_x_def lm_y_def)
  show ?thesis
    using ne eq length_hand_three length_hand_three_moved by simp
qed

subsection \<open>The command channel and the frame cycle: claims\<close>

text \<open>
  Claim C1: for every processed frame, if the landmark source yields no hands then no send
  is attempted and the finger count of the cycle is 0; if at least one hand is returned,
  the first one is counted, and exactly one send call, carrying the finger count of that
  hand, is made if and only if the channel is connected. The channel object is left as it
  was, and the cycle can only raise what the port's write raised.
\<close>

theorem C1_frame_cycle:
  assumes "detect (flip frame) = (frame', hands)"
  shows "(hands = [] \<longrightarrow>
            ahmdProcessFrame flip detect written frame c = (Returned (frame', 0), c, []))
     \<and> (\<forall>hand others. hands = hand # others \<longrightarrow>
          (\<exists>n r c' evs.
              akCountFingers hand = Returned n
            \<and> ahmdProcessFrame flip detect written frame c = (r, c', evs)
            \<and> (r = Returned (frame', n) \<or> (\<exists>e. r = Raised e \<and> written = Raises e))
            \<and> c' = c
            \<and> send_calls evs = (if isConnected c then [n] else [])
            \<and> (isConnected c \<longrightarrow> evs = snd (snd (akSendData written n c)))
            \<and> (\<not> isConnected c \<longrightarrow> r = Returned (frame', n) \<and> evs = [])))"
proof (intro conjI allI impI)
  assume "hands = []"
  with assms show "ahmdProcessFrame flip detect written frame c = (Returned (frame', 0), c, [])"
    by (simp add: ahmdProcessFrame_def)
next
  fix hand others
  assume h: "hands = hand # others"
  obtain n where n: "akCountFingers hand = Returned n"
    using akCountFingers_returns [of hand] by blast
  show "\<exists>n r c' evs.
              akCountFingers hand = Returned n
            \<and> ahmdProcessFrame flip detect written frame c = (r, c', evs)
            \<and> (r = Returned (frame', n) \<or> (\<exists>e. r = Raised e \<and> written = Raises e))
            \<and> c' = c
            \<and> send_calls evs = (if isConnected c then [n] else [])
            \<and> (isConnected c \<longrightarrow> evs = snd (snd (akSendData written n c)))
            \<and> (\<not> isConnected c \<longrightarrow> r = Returned (frame', n) \<and> evs = [])"
  proof (cases "isConnected c")
    case False
    then show ?thesis
      using assms h n by (simp add: ahmdProcessFrame_def)
  next
    case True
    then show ?thesis
      using assms h n
      by (auto simp: ahmdProcessFrame_def akSendData_def Let_def
               split: outcome.splits exn.splits)
  qed
qed

text \<open>
  Claim C1, witness: a frame with the three-finger hand on a connected channel makes one
  send call carrying 3; a frame with no hand makes none and counts 0.
\<close>

theorem C1_frame_cycle_witness:
  "(\<lambda>f. (f, [hand_three])) ((\<lambda>f. f) (0 :: nat)) = (0, [hand_three])
   \<and> isConnected controller1
   \<and> ahmdProcessFrame (\<lambda>f. f) (\<lambda>f. (f, [hand_three])) (Returns 1) (0 :: nat) controller1
       = (Returned (0, 3), controller1, [Call_akSendData 3, Serial_write 7 [51]])
   \<and> ahmdProcessFrame (\<lambda>f. f) (\<lambda>f. (f, [])) (Returns 1) (0 :: nat) controller1
       = (Returned (0, 0), controller1, [])"
proof -
  have c: "isConnected controller1" "arduino controller1 = Some 7"
    by (simp_all add: controller1_def)
  have s: "akSendData (Returns 1) 3 controller1
             = (Returned True, controller1, [Call_akSendData 3, Serial_write 7 [51]])"
    using c bytes_of_count [of 3] by (simp add: akSendData_def)
  have a: "ahmdProcessFrame (\<lambda>f. f) (\<lambda>f. (f, [hand_three])) (Returns 1) (0 :: nat) controller1
       = (Returned (0, 3), controller1, [Call_akSendData 3, Serial_write 7 [51]])"
    using C1_frame_cycle
      [of "\<lambda>f. (f, [hand_three])" "\<lambda>f. f" "0 :: nat" 0 "[hand_three]" "Returns 1" controller1]
      c s akCountFingers_hand_three
    by auto
  have b: "ahmdProcessFrame (\<lambda>f. f) (\<lambda>f. (f, [])) (Returns 1) (0 :: nat) controller1
       = (Returned (0, 0), controller1, [])"
    using C1_frame_cycle [of "\<lambda>f. (f, [])" "\<lambda>f. f" "0 :: nat" 0 "[]" "Returns 1" controller1]
    by simp
  show ?thesis using a b c by simp
qed

text \<open>
  Claim C6: for every value, a send on a channel that is not connected (also a channel
  fresh from construction, or one whose connect failed) returns false at once, without
  raising and whatever the port would have answered; a send on a connected channel whose
  write fails with a serial error logs the error, returns false and leaves the channel
  connected.
\<close>

theorem C6_send_failures:
  "(\<not> isConnected c \<or> arduino c = None \<longrightarrow>
      akSendData written data c = (Returned False, c, [Call_akSendData data]))
   \<and> akSendData written data (AKArduinoController_init p b t)
       = (Returned False, AKArduinoController_init p b t, [Call_akSendData data])
   \<and> akSendData written data
        (fst (snd (ahmdConnect (Raises (SerialException m)) (AKArduinoController_init p b t))))
       = (Returned False,
          fst (snd (ahmdConnect (Raises (SerialException m)) (AKArduinoController_init p b t))),
          [Call_akSendData data])
   \<and> (isConnected c \<and> arduino c = Some h \<longrightarrow>
        (\<exists>c'. akSendData (Raises (SerialException e)) data c
            = (Returned False, c',
               [Call_akSendData data, Serial_write h (bytes_utf8 (py_str data)),
                Log_error (''AK data transmission failed: '' @ e)])
          \<and> c' = c \<and> isConnected c' \<and> arduino c' = Some h))"
  by (auto simp: akSendData_def ahmdConnect_def AKArduinoController_init_def)

text \<open>
  Claim C6, witness: a send on the never connected channel, and a send on the connected
  channel whose write times out.
\<close>

theorem C6_send_failures_witness:
  "\<not> isConnected controller0
   \<and> akSendData (Returns 1) 3 controller0 = (Returned False, controller0, [Call_akSendData 3])
   \<and> isConnected controller1 \<and> arduino controller1 = Some 7
   \<and> akSendData (Raises (SerialException ''write timeout'')) 3 controller1
       = (Returned False, controller1,
          [Call_akSendData 3, Serial_write 7 [51],
           Log_error ''AK data transmission failed: write timeout''])"
proof -
  have c0: "\<not> isConnected controller0"
    by (simp add: controller0_def AKArduinoController_init_def)
  have c1: "isConnected controller1" "arduino controller1 = Some 7"
    by (simp_all add: controller1_def)
  show ?thesis
    using C6_send_failures [of controller0 "Returns 1" 3 "''COM3''" 9600 2 "''x''" 7 "''x''"]
      C6_send_failures [of controller1 "Returns 1" 3 "''COM3''" 9600 2 "''x''" 7 "''write timeout''"]
      c0 c1 bytes_of_count [of 3]
    by simp
qed

text \<open>
  Claim C7: when the port opens, connect sleeps for the settle period of 2 seconds after
  the open and before it returns, sets the channel connected and returns true, so that a
  later send writes to the port; when the open fails with a serial error, connect logs
  the cause, leaves the channel not connected, a state in which send returns false
  without writing, and returns false without raising.
\<close>

theorem C7_connect:
  "(\<exists>c'. ahmdConnect (Returns h) c
        = (Returned True, c',
           [Serial_open (port c) (baud_rate c) (timeout c), Sleep 2,
            Log_info (''AK Arduino connected on '' @ port c)])
      \<and> isConnected c' \<and> arduino c' = Some h
      \<and> c' = c\<lparr>arduino := Some h, isConnected := True\<rparr>
      \<and> snd (snd (akSendData (Returns k) data c'))
          = [Call_akSendData data, Serial_write h (bytes_utf8 (py_str data))])
   \<and> (\<exists>c'. ahmdConnect (Raises (SerialException e)) c
        = (Returned False, c',
           [Serial_open (port c) (baud_rate c) (timeout c),
            Log_error (''AHMD Arduino connection failed: '' @ e)])
      \<and> \<not> isConnected c'
      \<and> c' = c\<lparr>isConnected := False\<rparr>
      \<and> akSendData written data c' = (Returned False, c', [Call_akSendData data]))"
  by (simp add: ahmdConnect_def akSendData_def)

text \<open>
  Claim C7, witness: a successful and a failed connect of the channel built with the
  default configuration.
\<close>

theorem C7_connect_witness:
  "ahmdConnect (Returns 7) controller0
     = (Returned True, controller1,
        [Serial_open ''COM3'' 9600 2, Sleep 2, Log_info ''AK Arduino connected on COM3''])
   \<and> ahmdConnect (Raises (SerialException ''no such port'')) controller0
     = (Returned False, controller0,
        [Serial_open ''COM3'' 9600 2,
         Log_error ''AHMD Arduino connection failed: no such port''])"
  using C7_connect [of 7 controller0 1 3 "''no such port''" "Returns 1"]
  by (simp add: controller0_def controller1_def AKArduinoController_init_def)

text \<open>
  Claim C8, as stated: calling disconnect twice in a row, or when never connected,
  produces no fault and leaves the state disconnected, and after a successful connect a
  disconnect followed by a send makes that send return false. The claim fails on the
  channel that a successful connect of the default configuration produces, when the
  port's close raises: the first and the second disconnect both end in that exception,
  the channel is still connected after each, and the following send writes to the port and
  returns true.
\<close>

theorem C8_disconnect_counterexample:
  "ahmdConnect (Returns 7) controller0
     = (Returned True, controller1,
        [Serial_open ''COM3'' 9600 2, Sleep 2, Log_info ''AK Arduino connected on COM3''])
   \<and> ahmdDisconnect (Raises (OtherException ''OSError'')) controller1
       = (Raised (OtherException ''OSError''), controller1, [Serial_close 7])
   \<and> fst (ahmdDisconnect (Raises (OtherException ''OSError''))
             (fst (snd (ahmdDisconnect (Raises (OtherException ''OSError'')) controller1))))
       = Raised (OtherException ''OSError'')
   \<and> isConnected (fst (snd (ahmdDisconnect (Raises (OtherException ''OSError'')) controller1)))
   \<and> akSendData (Returns 1) 3
        (fst (snd (ahmdDisconnect (Raises (OtherException ''OSError'')) controller1)))
       = (Returned True, controller1, [Call_akSendData 3, Serial_write 7 [51]])"
proof -
  have d: "ahmdDisconnect (Raises (OtherException ''OSError'')) controller1
       = (Raised (OtherException ''OSError''), controller1, [Serial_close 7])"
    by (simp add: ahmdDisconnect_def isConnected_controller1 arduino_controller1)
  have s: "akSendData (Returns 1) 3 controller1
       = (Returned True, controller1, [Call_akSendData 3, Serial_write 7 [51]])"
    using bytes_of_count [of 3]
    by (simp add: akSendData_def isConnected_controller1 arduino_controller1)
  show ?thesis
    using d s ahmdConnect_controller0 isConnected_controller1 by simp
qed

text \<open>
  Claim C8, amended: disconnect is idempotent. On a channel that is not connected, never
  connected or already disconnected, it makes no call on the port, produces no fault and
  leaves the channel as it is, whatever the port's close would answer. On any channel,
  when the port's close returns, disconnect produces no fault and leaves the channel
  disconnected (for every channel whose flag is set only while it holds a port object,
  which is every channel the methods can produce), and a second disconnect right after
  it does nothing and produces no fault. After a successful connect, a disconnect whose
  close returns, followed by a send, makes that send return false.
\<close>

theorem C8_disconnect:
  "(\<not> (arduino c \<noteq> None \<and> isConnected c) \<longrightarrow> ahmdDisconnect closed c = (Returned (), c, []))
   \<and> ahmdDisconnect closed (AKArduinoController_init p b t)
        = (Returned (), AKArduinoController_init p b t, [])
   \<and> \<not> isConnected (AKArduinoController_init p b t)
   \<and> (\<exists>c1 evs1. ahmdDisconnect (Returns u) c = (Returned (), c1, evs1)
        \<and> ahmdDisconnect closed c1 = (Returned (), c1, [])
        \<and> (channel_inv c \<longrightarrow> \<not> isConnected c1))
   \<and> (\<exists>c0 evs0 c1. ahmdConnect (Returns h) c = (Returned True, c0, evs0)
        \<and> ahmdDisconnect (Returns u) c0
            = (Returned (), c1, [Serial_close h, Log_info ''AHMD Arduino disconnected''])
        \<and> \<not> isConnected c1
        \<and> ahmdDisconnect closed c1 = (Returned (), c1, [])
        \<and> akSendData written data c1 = (Returned False, c1, [Call_akSendData data]))"
  by (auto simp: ahmdDisconnect_def ahmdConnect_def akSendData_def channel_inv_def
        AKArduinoController_init_def)

text \<open>
  Claim C8, witness: the connected channel is disconnected with a close that returns; a
  second disconnect does nothing even when close would raise; a send on it then returns
  false.
\<close>

theorem C8_disconnect_witness:
  "channel_inv controller1 \<and> isConnected controller1
   \<and> ahmdDisconnect (Returns ()) controller1
       = (Returned (), controller1\<lparr>isConnected := False\<rparr>,
          [Serial_close 7, Log_info ''AHMD Arduino disconnected''])
   \<and> \<not> (arduino controller0 \<noteq> None \<and> isConnected controller0)
   \<and> ahmdDisconnect (Raises (OtherException ''OSError'')) controller0
       = (Returned (), controller0, [])
   \<and> ahmdDisconnect (Raises (OtherException ''OSError'')) (controller1\<lparr>isConnected := False\<rparr>)
       = (Returned (), controller1\<lparr>isConnected := False\<rparr>, [])
   \<and> akSendData (Returns 1) 3 (controller1\<lparr>isConnected := False\<rparr>)
       = (Returned False, controller1\<lparr>isConnected := False\<rparr>, [Call_akSendData 3])"
proof -
  let ?off = "controller1\<lparr>isConnected := False\<rparr>"
  let ?bad = "Raises (OtherException ''OSError'') :: unit outcome"
  have d: "ahmdDisconnect (Returns ()) controller1
       = (Returned (), ?off, [Serial_close 7, Log_info ''AHMD Arduino disconnected''])"
    by (simp add: ahmdDisconnect_def controller1_def)
  have c: "fst (snd (ahmdConnect (Returns 7) controller1)) = controller1"
    by (simp add: ahmdConnect_def controller1_def)
  have n0: "\<not> (arduino controller0 \<noteq> None \<and> isConnected controller0)"
    by (simp add: controller0_def AKArduinoController_init_def)
  note t0 = C8_disconnect [where c = controller0 and closed = ?bad and u = "()" and h = 7
      and written = "Returns 1" and data = 3 and p = "''COM3''" and b = 9600 and t = 2]
  from t0 n0 have never: "ahmdDisconnect ?bad controller0 = (Returned (), controller0, [])"
    by blast
  note t = C8_disconnect [where c = controller1 and closed = ?bad and u = "()" and h = 7
      and written = "Returns 1" and data = 3 and p = "''COM3''" and b = 9600 and t = 2]
  from t obtain c0 evs0 c1 where
    s: "ahmdConnect (Returns 7) controller1 = (Returned True, c0, evs0)"
      "ahmdDisconnect (Returns ()) c0
         = (Returned (), c1, [Serial_close 7, Log_info ''AHMD Arduino disconnected''])"
      "ahmdDisconnect ?bad c1 = (Returned (), c1, [])"
      "akSendData (Returns 1) 3 c1 = (Returned False, c1, [Call_akSendData 3])"
    by blast
  from s(1) c have "c0 = controller1" by simp
  with s(2) d have c1: "c1 = ?off" by simp
  from s(3) c1 have twice: "ahmdDisconnect ?bad ?off = (Returned (), ?off, [])"
    by simp
  from s(4) c1 have send: "akSendData (Returns 1) 3 ?off = (Returned False, ?off, [Call_akSendData 3])"
    by simp
  show ?thesis
    using d n0 never twice send channel_inv_controller1 isConnected_controller1 by simp
qed

text \<open>
  Claim C9: in a cycle that sends, the finger count \<open>n\<close> is between 0 and 5 and the bytes
  handed to the port's write are the decimal text of \<open>n\<close>, the single byte of the digit
  character (code 48 + \<open>n\<close>); the cycle makes this one write and no other call on the
  port, so nothing frames, delimits or acknowledges the digit.
\<close>

theorem C9_wire_format:
  assumes "detect (flip frame) = (frame', hand # others)"
    and "isConnected c" and "arduino c = Some h"
  shows "\<exists>n. akCountFingers hand = Returned n \<and> 0 \<le> n \<and> n \<le> 5
     \<and> writes (snd (snd (ahmdProcessFrame flip detect written frame c)))
         = [[word_of_int (48 + n)]]
     \<and> ahmdProcessFrame flip detect (Returns k) frame c
         = (Returned (frame', n), c, [Call_akSendData n, Serial_write h [word_of_int (48 + n)]])
     \<and> bytes_utf8 (py_str n) = [word_of_int (48 + n)]
     \<and> int (decimal_value (py_str n)) = n"
proof -
  obtain n where n: "akCountFingers hand = Returned n" "0 \<le> n" "n \<le> 5"
    using akCountFingers_returns [of hand] by blast
  have b: "bytes_utf8 (py_str n) = [word_of_int (48 + n)]"
    using n(2,3) by (rule bytes_of_count)
  have w: "writes (snd (snd (ahmdProcessFrame flip detect written frame c)))
         = [[word_of_int (48 + n)]]"
    using assms n(1) b
    by (auto simp: ahmdProcessFrame_def akSendData_def Let_def split: outcome.splits exn.splits)
  have r: "ahmdProcessFrame flip detect (Returns k) frame c
         = (Returned (frame', n), c, [Call_akSendData n, Serial_write h [word_of_int (48 + n)]])"
    using assms n(1) b
    by (simp add: ahmdProcessFrame_def akSendData_def)
  show ?thesis
    using n b w r decimal_value_py_str [OF n(2)] by blast
qed

text \<open>
  Claim C9, witness: the three-finger hand on a connected channel writes the one byte 51,
  the character 3, also when the write then fails.
\<close>

theorem C9_wire_format_witness:
  "(\<lambda>f. (f, [hand_three])) ((\<lambda>f. f) (0 :: nat)) = (0, [hand_three])
   \<and> isConnected controller1 \<and> arduino controller1 = Some 7
   \<and> writes (snd (snd (ahmdProcessFrame (\<lambda>f. f) (\<lambda>f. (f, [hand_three]))
        (Raises (SerialException ''write timeout'')) (0 :: nat) controller1))) = [[51]]
   \<and> of_char (CHR ''3'') = (51 :: byte)"
proof -
  have c: "isConnected controller1" "arduino controller1 = Some 7"
    by (simp_all add: controller1_def)
  have d: "(\<lambda>f. (f, [hand_three])) ((\<lambda>f. f) (0 :: nat)) = (0, [hand_three])"
    by simp
  show ?thesis
    using C9_wire_format
      [where detect = "\<lambda>f. (f, [hand_three])" and flip = "\<lambda>f. f" and frame = "0 :: nat"
         and frame' = 0 and hand = hand_three and others = "[]" and c = controller1
         and h = 7 and written = "Raises (SerialException ''write timeout'')" and k = 1]
      akCountFingers_hand_three c
    by auto
qed

end
